theory Spec2Isabelle
  imports Main "HOL-Library.AList"
begin

unbundle bit_operations_syntax

section \<open>The asyncio adapter of curl\_cffi (\<open>curl_cffi/aio.py\<close>)\<close>

text \<open>
  \<open>AsyncCurl\<close> drives a libcurl multi handle from an asyncio event loop. The model
  is a shallow embedding with explicit state passing: one record holds the fields of the
  \<open>AsyncCurl\<close> object together with the objects it shares with its surroundings (the
  futures handed to callers, the timer handles and the reader and writer watches of the
  event loop). Python objects with identity (futures, timer handles) live in stores, lists
  addressed by position, and the adapter's containers hold positions. An exception is a
  \<open>Raised\<close> outcome next to the state as the raise left it.
\<close>

subsection \<open>Constants\<close>

definition CURL_POLL_NONE :: int where "CURL_POLL_NONE = 0"
definition CURL_POLL_IN :: int where "CURL_POLL_IN = 1"
definition CURL_POLL_OUT :: int where "CURL_POLL_OUT = 2"
definition CURL_POLL_INOUT :: int where "CURL_POLL_INOUT = 3"
definition CURL_POLL_REMOVE :: int where "CURL_POLL_REMOVE = 4"

definition CURL_SOCKET_TIMEOUT :: int where "CURL_SOCKET_TIMEOUT = - 1"

definition CURL_CSELECT_IN :: int where "CURL_CSELECT_IN = 1"
definition CURL_CSELECT_OUT :: int where "CURL_CSELECT_OUT = 2"

definition CURLMSG_DONE :: int where "CURLMSG_DONE = 1"

lemmas curl_consts =
  CURL_POLL_NONE_def CURL_POLL_IN_def CURL_POLL_OUT_def CURL_POLL_INOUT_def
  CURL_POLL_REMOVE_def CURL_SOCKET_TIMEOUT_def CURL_CSELECT_IN_def CURL_CSELECT_OUT_def
  CURLMSG_DONE_def

subsection \<open>Data\<close>

text \<open>The native easy handle of a transfer (\<open>curl._curl\<close>), opaque to the adapter.\<close>

type_synonym easy = nat

text \<open>
  A \<open>Curl\<close> object: its identity (it is a dictionary key by identity) and the native
  easy handle it wraps.
\<close>

record curl =
  ident :: nat
  handle :: easy

text \<open>
  Modelled from the spec: \<open>Curl._get_error\<close> is defined in \<open>curl.py\<close>, which is
  not among the sources; the spec describes its result as an error object carrying the
  native status code and the name of the operation that failed.
\<close>

datatype exn = CurlError int string

definition get_error :: "curl \<Rightarrow> int \<Rightarrow> string \<Rightarrow> exn" where
  "get_error c retcode action = CurlError retcode action"

text \<open>The exceptions the adapter's own code can raise.\<close>

datatype error =
    TypeError_fd_not_found int  \<comment> \<open>\<open>TypeError(f"File descriptor {sockfd} not found.")\<close>\<close>
  | KeyError easy               \<comment> \<open>\<open>self._curl2curl[h]\<close> with \<open>h\<close> missing\<close>
  | TypeError_none_handle       \<comment> \<open>a native call that is handed \<open>None\<close> as multi handle\<close>

datatype 'a outcome = Returned 'a | Raised error

text \<open>
  An asyncio future: \<open>done()\<close> holds in every state but \<open>PENDING\<close>,
  \<open>cancelled()\<close> in \<open>CANCELLED\<close> only. The adapter only ever sets the result
  \<open>None\<close>.
\<close>

datatype fstate = PENDING | FINISHED_result | FINISHED_exception exn | CANCELLED

definition future_done :: "fstate list \<Rightarrow> nat \<Rightarrow> bool" where
  "future_done futs f = (futs ! f \<noteq> PENDING)"

definition future_cancelled :: "fstate list \<Rightarrow> nat \<Rightarrow> bool" where
  "future_cancelled futs f = (futs ! f = CANCELLED)"

text \<open>
  A timer handle returned by \<open>loop.call_later\<close>: the delay asked for in milliseconds
  (the source passes \<open>timeout_ms / 1000\<close> seconds), the arguments \<open>process_data\<close>
  will be called with, and whether \<open>cancel()\<close> was called on it.
\<close>

record timer_handle =
  when_ms :: int
  th_args :: "int \<times> int"
  th_cancelled :: bool

text \<open>A message of the engine's queue (\<open>CURLMsg\<close>).\<close>

record curl_msg =
  msg :: int
  easy_handle :: easy
  data_result :: int

text \<open>
  Modelled from the spec: the native engine (libcurl's multi interface, reached through
  \<open>lib\<close>) is not among the sources. The spec gives its boundary: add and remove a
  transfer handle, a socket-action entry point, and a message queue that is popped until
  it is empty. The engine is the set of easy handles added to it and its queue of
  messages; what it does during \<open>curl_multi_socket_action\<close> (the count of running
  transfers it reports and the transfers it completes) is not determined by the adapter
  and is an argument of the model, its \<open>reaction\<close>. The callbacks the engine makes
  while it is inside a native call are not part of these functions; they are events of
  their own in a run of the adapter.
\<close>

record engine =
  easies :: "easy set"
  msgq :: "curl_msg list"

definition curl_multi_add_handle :: "engine \<Rightarrow> easy \<Rightarrow> engine" where
  "curl_multi_add_handle e h = e\<lparr>easies := insert h (easies e)\<rparr>"

definition curl_multi_remove_handle :: "engine \<Rightarrow> easy \<Rightarrow> engine" where
  "curl_multi_remove_handle e h = e\<lparr>easies := easies e - {h}\<rparr>"

record reaction =
  running_handles :: int
  completed :: "curl_msg list"

definition curl_multi_socket_action ::
  "engine \<Rightarrow> int \<Rightarrow> int \<Rightarrow> reaction \<Rightarrow> int \<times> engine" where
  "curl_multi_socket_action e sockfd ev_bitmask r =
     (running_handles r, e\<lparr>msgq := msgq e @ completed r\<rparr>)"

definition curl_multi_info_read :: "engine \<Rightarrow> curl_msg option \<times> engine" where
  "curl_multi_info_read e =
     (case msgq e of [] \<Rightarrow> (None, e) | m # ms \<Rightarrow> (Some m, e\<lparr>msgq := ms\<rparr>))"

text \<open>
  The \<open>AsyncCurl\<close> object and its surroundings.
  \<^item> \<open>curlm\<close> is \<open>self._curlm\<close>: the engine, \<open>None\<close> once \<open>close\<close> has released it.
  \<^item> \<open>curl2future\<close> and \<open>curl2curl\<close> are the two dictionaries, in insertion order.
  \<^item> \<open>sockfds\<close> is \<open>self._sockfds\<close>; \<open>timers\<close> is \<open>self._timers\<close>, holding
    positions of \<open>loop_timers\<close>. The source keeps the timers in a \<open>WeakSet\<close>; the
    model keeps every timer that was added until the set is replaced.
  \<^item> \<open>checker_cancelled\<close> records \<open>self._checker.cancel()\<close>.
  \<^item> \<open>loop_readers\<close>, \<open>loop_writers\<close> are the loop's watches: descriptor to the
    arguments \<open>process_data\<close> is called with; \<open>loop_timers\<close> are the handles made by
    \<open>call_later\<close>, \<open>futures\<close> the futures made by \<open>create_future\<close>.
  \<^item> \<open>warnings\<close> collects \<open>warnings.warn\<close>, \<open>stdout\<close> collects \<open>print\<close>.
\<close>

record async_curl =
  curlm :: "engine option"
  curl2future :: "(curl \<times> nat) list"
  curl2curl :: "(easy \<times> curl) list"
  sockfds :: "int set"
  timers :: "nat set"
  checker_cancelled :: bool
  loop_readers :: "int \<rightharpoonup> int \<times> int"
  loop_writers :: "int \<rightharpoonup> int \<times> int"
  loop_timers :: "timer_handle list"
  futures :: "fstate list"
  warnings :: "string list"
  stdout :: "string list"

subsection \<open>The callbacks the engine invokes\<close>

text \<open>\<open>for timer in timers: timer.cancel()\<close>.\<close>

definition cancel_all :: "nat set \<Rightarrow> timer_handle list \<Rightarrow> timer_handle list" where
  "cancel_all ts hs =
     map (\<lambda>(i, h). if i \<in> ts then h\<lparr>th_cancelled := True\<rparr> else h) (enumerate 0 hs)"

definition timer_function :: "async_curl \<Rightarrow> int \<Rightarrow> unit outcome \<times> async_curl" where
  "timer_function s timeout_ms =
     (if timeout_ms = - 1 then
        (Returned (), s\<lparr>loop_timers := cancel_all (timers s) (loop_timers s), timers := {}\<rparr>)
      else
        (Returned (),
         s\<lparr>loop_timers := loop_timers s @
              [\<lparr>when_ms = timeout_ms, th_args = (CURL_SOCKET_TIMEOUT, CURL_POLL_NONE),
                th_cancelled = False\<rparr>],
           timers := insert (length (loop_timers s)) (timers s)\<rparr>))"

text \<open>
  \<open>socket_function\<close>, in the three steps of the source: drop the existing watches of a
  tracked descriptor (or raise, when removal is asked for an untracked one), then add the
  reader, then add the writer.
\<close>

definition socket_function :: "async_curl \<Rightarrow> int \<Rightarrow> int \<Rightarrow> unit outcome \<times> async_curl" where
  "socket_function s sockfd what =
     (let dropped =
        (if what AND CURL_POLL_IN \<noteq> 0 \<or> what AND CURL_POLL_OUT \<noteq> 0
            \<or> what AND CURL_POLL_REMOVE \<noteq> 0 then
           (if sockfd \<in> sockfds s then
              Returned (s\<lparr>loop_readers := (loop_readers s)(sockfd := None),
                          loop_writers := (loop_writers s)(sockfd := None),
                          sockfds := sockfds s - {sockfd}\<rparr>)
            else if what AND CURL_POLL_REMOVE \<noteq> 0 then
              Raised (TypeError_fd_not_found sockfd)
            else Returned s)
         else Returned s)
      in case dropped of
           Raised x \<Rightarrow> (Raised x, s)
         | Returned s1 \<Rightarrow>
            (let s2 = (if what AND CURL_POLL_IN \<noteq> 0 then
                         s1\<lparr>loop_readers := (loop_readers s1)(sockfd \<mapsto> (sockfd, CURL_CSELECT_IN)),
                            sockfds := insert sockfd (sockfds s1)\<rparr>
                       else s1);
                 s3 = (if what AND CURL_POLL_OUT \<noteq> 0 then
                         s2\<lparr>loop_writers := (loop_writers s2)(sockfd \<mapsto> (sockfd, CURL_CSELECT_OUT)),
                            sockfds := insert sockfd (sockfds s2)\<rparr>
                       else s2)
             in (Returned (), s3)))"

subsection \<open>The methods of \<open>AsyncCurl\<close>\<close>

text \<open>
  A native call is handed \<open>self._curlm\<close>. Once \<open>close\<close> has set it to \<open>None\<close>
  there is no engine to call: the binding takes a pointer there and rejects \<open>None\<close> with
  a \<open>TypeError\<close>, so the call raises and what follows it in the method is not executed.
  \<open>curl._ensure_cacert()\<close> in \<open>add_handle\<close> configures the transfer and does not
  touch the adapter.
\<close>

definition add_handle :: "async_curl \<Rightarrow> curl \<Rightarrow> nat outcome \<times> async_curl" where
  "add_handle s c =
     (case curlm s of
        None \<Rightarrow> (Raised TypeError_none_handle, s)
      | Some e \<Rightarrow>
         (let future = length (futures s) in
          (Returned future,
           s\<lparr>curlm := Some (curl_multi_add_handle e (handle c)),
             futures := futures s @ [PENDING],
             curl2future := AList.update c future (curl2future s),
             curl2curl := AList.update (handle c) c (curl2curl s)\<rparr>)))"

definition pop_future :: "async_curl \<Rightarrow> curl \<Rightarrow> nat option outcome \<times> async_curl" where
  "pop_future s c =
     (case curlm s of
        None \<Rightarrow> (Raised TypeError_none_handle, s)
      | Some e \<Rightarrow>
         (Returned (map_of (curl2future s) c),
          s\<lparr>curlm := Some (curl_multi_remove_handle e (handle c)),
            curl2curl := AList.delete (handle c) (curl2curl s),
            curl2future := AList.delete c (curl2future s)\<rparr>))"

text \<open>
  The three resolutions share their shape: pop the future, and if there is one and it is
  neither done nor cancelled, put it into the terminal state.
\<close>

definition resolve :: "async_curl \<Rightarrow> curl \<Rightarrow> fstate \<Rightarrow> unit outcome \<times> async_curl" where
  "resolve s c v =
     (case pop_future s c of
        (Raised x, s1) \<Rightarrow> (Raised x, s1)
      | (Returned None, s1) \<Rightarrow> (Returned (), s1)
      | (Returned (Some future), s1) \<Rightarrow>
          (if \<not> future_done (futures s1) future \<and> \<not> future_cancelled (futures s1) future then
             (Returned (), s1\<lparr>futures := (futures s1)[future := v]\<rparr>)
           else (Returned (), s1)))"

definition remove_handle :: "async_curl \<Rightarrow> curl \<Rightarrow> unit outcome \<times> async_curl" where
  "remove_handle s c = resolve s c CANCELLED"

definition set_result :: "async_curl \<Rightarrow> curl \<Rightarrow> unit outcome \<times> async_curl" where
  "set_result s c = resolve s c FINISHED_result"

definition set_exception :: "async_curl \<Rightarrow> curl \<Rightarrow> exn \<Rightarrow> unit outcome \<times> async_curl" where
  "set_exception s c exception = resolve s c (FINISHED_exception exception)"

definition socket_action ::
  "async_curl \<Rightarrow> int \<Rightarrow> int \<Rightarrow> reaction \<Rightarrow> int outcome \<times> async_curl" where
  "socket_action s sockfd ev_bitmask r =
     (case curlm s of
        None \<Rightarrow> (Raised TypeError_none_handle, s)
      | Some e \<Rightarrow>
         (case curl_multi_socket_action e sockfd ev_bitmask r of
            (running, e') \<Rightarrow> (Returned running, s\<lparr>curlm := Some e'\<rparr>)))"

text \<open>The number of messages waiting in the engine's queue: what the drain loop consumes.\<close>

definition queued :: "async_curl \<Rightarrow> nat" where
  "queued s = (case curlm s of None \<Rightarrow> 0 | Some e \<Rightarrow> length (msgq e))"

lemma queued_resolve: "queued (snd (resolve s c v)) = queued s"
  by (simp add: resolve_def pop_future_def queued_def curl_multi_remove_handle_def
      split: option.split)

text \<open>
  The \<open>while True\<close> loop of \<open>process_data\<close>: read a message; stop when there is none;
  for a \<open>CURLMSG_DONE\<close> message look the transfer up by its easy handle and resolve it by
  the result code; print for any other message.
\<close>

function info_read_loop :: "async_curl \<Rightarrow> unit outcome \<times> async_curl" where
  "info_read_loop s =
     (case curlm s of
        None \<Rightarrow> (Raised TypeError_none_handle, s)
      | Some e \<Rightarrow>
         (case curl_multi_info_read e of
            (None, e') \<Rightarrow> (Returned (), s\<lparr>curlm := Some e'\<rparr>)
          | (Some curl_msg, e') \<Rightarrow>
             (if msg curl_msg = CURLMSG_DONE then
                (case map_of (curl2curl s) (easy_handle curl_msg) of
                   None \<Rightarrow> (Raised (KeyError (easy_handle curl_msg)), s\<lparr>curlm := Some e'\<rparr>)
                 | Some c \<Rightarrow>
                    (let retcode = data_result curl_msg;
                         resolved =
                           (if retcode = 0 then set_result (s\<lparr>curlm := Some e'\<rparr>) c
                            else set_exception (s\<lparr>curlm := Some e'\<rparr>) c
                                   (get_error c retcode ''perform''))
                     in case fst resolved of
                          Raised x \<Rightarrow> (Raised x, snd resolved)
                        | Returned u \<Rightarrow> info_read_loop (snd resolved)))
              else info_read_loop (s\<lparr>curlm := Some e', stdout := stdout s @ [''NOT DONE'']\<rparr>))))"
  by pat_completeness auto
termination
proof (relation "measure queued")
  show "wf (measure queued)" by simp
next
  fix s :: async_curl and e x e' m c retcode resolved u
  assume "curlm s = Some e" and "(x, e') = curl_multi_info_read e" and "x = Some m"
    and "resolved = (if retcode = 0 then set_result (s\<lparr>curlm := Some e'\<rparr>) c
            else set_exception (s\<lparr>curlm := Some e'\<rparr>) c (get_error c retcode ''perform''))"
  then have "queued (s\<lparr>curlm := Some e'\<rparr>) < queued s"
    by (auto simp: curl_multi_info_read_def queued_def split: list.splits)
  moreover have "queued (snd resolved) = queued (s\<lparr>curlm := Some e'\<rparr>)"
    using \<open>resolved = _\<close> by (simp add: set_result_def set_exception_def queued_resolve)
  ultimately show "(snd resolved, s) \<in> measure queued"
    by simp
next
  fix s :: async_curl and e x e' m
  assume "curlm s = Some e" and "(x, e') = curl_multi_info_read e" and "x = Some m"
  then show "(s\<lparr>curlm := Some e', stdout := stdout s @ [''NOT DONE'']\<rparr>, s) \<in> measure queued"
    by (auto simp: curl_multi_info_read_def queued_def split: list.splits)
qed

definition process_data ::
  "async_curl \<Rightarrow> int \<Rightarrow> int \<Rightarrow> reaction \<Rightarrow> unit outcome \<times> async_curl" where
  "process_data s sockfd ev_bitmask r =
     (if curlm s = None then
        (Returned (),
         s\<lparr>warnings := warnings s @ [''Curlm alread closed! quitting from process_data'']\<rparr>)
      else
        (case socket_action s sockfd ev_bitmask r of
           (Raised x, s1) \<Rightarrow> (Raised x, s1)
         | (Returned running, s1) \<Rightarrow> info_read_loop s1))"

text \<open>
  \<open>close\<close>: the loop over \<open>self._curl2future.items()\<close>, then the release of the multi
  handle, the removal of the watches of every descriptor in \<open>self._sockfds\<close> and the
  cancellation of every timer in \<open>self._timers\<close>. Neither dictionary and neither set is
  assigned to.
\<close>

fun close_futures :: "(curl \<times> nat) list \<Rightarrow> async_curl \<Rightarrow> unit outcome \<times> async_curl" where
  "close_futures [] s = (Returned (), s)"
| "close_futures ((c, future) # items) s =
     (case curlm s of
        None \<Rightarrow> (Raised TypeError_none_handle, s)
      | Some e \<Rightarrow>
         (let s1 = s\<lparr>curlm := Some (curl_multi_remove_handle e (handle c))\<rparr>;
              s2 = (if \<not> future_done (futures s1) future \<and> \<not> future_cancelled (futures s1) future
                    then s1\<lparr>futures := (futures s1)[future := FINISHED_result]\<rparr>
                    else s1)
          in close_futures items s2))"

definition close :: "async_curl \<Rightarrow> unit outcome \<times> async_curl" where
  "close s =
     (let s0 = s\<lparr>checker_cancelled := True\<rparr> in
      case close_futures (curl2future s0) s0 of
        (Raised x, s1) \<Rightarrow> (Raised x, s1)
      | (Returned u, s1) \<Rightarrow>
         (case curlm s1 of
            None \<Rightarrow> (Raised TypeError_none_handle, s1)
          | Some e \<Rightarrow>
             (Returned (),
              s1\<lparr>curlm := None,
                 loop_readers := loop_readers s1 |` (- sockfds s1),
                 loop_writers := loop_writers s1 |` (- sockfds s1),
                 loop_timers := cancel_all (timers s1) (loop_timers s1)\<rparr>)))"

subsection \<open>Runs of the adapter\<close>

text \<open>
  Everything that can happen to an adapter: a call of one of its methods by the caller, a
  callback from the engine, a call of \<open>process_data\<close> by the event loop, or the call of
  \<open>socket_action\<close> that the checker task makes every second. A run is a sequence of
  such events; an event that raises leaves the state as it was at the raise, and the run
  goes on from there.
\<close>

datatype event =
    Add_handle curl
  | Remove_handle curl
  | Set_result curl
  | Set_exception curl exn
  | Close
  | Process_data int int reaction
  | Socket_action int int reaction
  | Timer_function int
  | Socket_function int int

fun fire :: "event \<Rightarrow> async_curl \<Rightarrow> async_curl" where
  "fire (Add_handle c) s = snd (add_handle s c)"
| "fire (Remove_handle c) s = snd (remove_handle s c)"
| "fire (Set_result c) s = snd (set_result s c)"
| "fire (Set_exception c x) s = snd (set_exception s c x)"
| "fire Close s = snd (close s)"
| "fire (Process_data sockfd ev_bitmask r) s = snd (process_data s sockfd ev_bitmask r)"
| "fire (Socket_action sockfd ev_bitmask r) s = snd (socket_action s sockfd ev_bitmask r)"
| "fire (Timer_function timeout_ms) s = snd (timer_function s timeout_ms)"
| "fire (Socket_function sockfd what) s = snd (socket_function s sockfd what)"

fun run :: "event list \<Rightarrow> async_curl \<Rightarrow> async_curl" where
  "run [] s = s"
| "run (ev # evs) s = run evs (fire ev s)"

text \<open>
  The adapter as \<open>__init__\<close> leaves it: a fresh multi handle, empty dictionaries and
  sets, the checker task started, nothing registered with the loop on its behalf.
\<close>

definition init :: async_curl where
  "init = \<lparr>curlm = Some \<lparr>easies = {}, msgq = []\<rparr>, curl2future = [], curl2curl = [],
            sockfds = {}, timers = {}, checker_cancelled = False,
            loop_readers = Map.empty, loop_writers = Map.empty, loop_timers = [],
            futures = [], warnings = [], stdout = []\<rparr>"

text \<open>Transfers used as examples.\<close>

definition transfer_a :: curl where "transfer_a = \<lparr>ident = 1, handle = 5\<rparr>"
definition transfer_b :: curl where "transfer_b = \<lparr>ident = 2, handle = 6\<rparr>"

text \<open>
  \<open>settled_kept s s'\<close>: going from \<open>s\<close> to \<open>s'\<close> no future was lost and every future
  that was in a terminal state is in the same state.
\<close>

definition settled_kept :: "async_curl \<Rightarrow> async_curl \<Rightarrow> bool" where
  "settled_kept s s' \<longleftrightarrow>
     length (futures s) \<le> length (futures s') \<and>
     (\<forall>f < length (futures s). futures s ! f \<noteq> PENDING \<longrightarrow> futures s' ! f = futures s ! f)"





text \<open>
  An engine reaction used as example: transfer 5 succeeds, a message of another kind,
  transfer 6 fails with code 28.
\<close>

definition r_ab :: reaction where
  "r_ab = \<lparr>running_handles = 0,
           completed = [\<lparr>msg = 1, easy_handle = 5, data_result = 0\<rparr>,
                        \<lparr>msg = 2, easy_handle = 9, data_result = 0\<rparr>,
                        \<lparr>msg = 1, easy_handle = 6, data_result = 28\<rparr>]\<rparr>"

declare info_read_loop.simps [simp del]

lemmas engine_defs =
  curl_multi_add_handle_def curl_multi_remove_handle_def curl_multi_socket_action_def
  curl_multi_info_read_def

lemmas method_defs =
  add_handle_def pop_future_def resolve_def remove_handle_def set_result_def
  set_exception_def socket_action_def process_data_def close_def timer_function_def
  socket_function_def future_done_def future_cancelled_def get_error_def

lemmas example_defs = method_defs engine_defs init_def transfer_a_def transfer_b_def curl_consts

section \<open>The Drive Loop after close\<close>

text \<open>
  C8. When \<open>process_data\<close> is called after the adapter has been closed (\<open>self._curlm\<close>
  is \<open>None\<close>), it returns normally and the only change is the warning it emits: the
  engine is not called, no message is read, and the registry, the futures, the watches
  and the timers are as they were.
\<close>

theorem process_data_after_close:
  "curlm s = None \<Longrightarrow>
   process_data s sockfd ev_bitmask r =
     (Returned (),
      s\<lparr>warnings := warnings s @ [''Curlm alread closed! quitting from process_data'']\<rparr>)"
  by (simp add: process_data_def)

theorem process_data_after_close_witness:
  "curlm (snd (close init)) = None \<and>
   process_data (snd (close init)) (- 1) 0
       \<lparr>running_handles = 0, completed = [\<lparr>msg = 1, easy_handle = 5, data_result = 0\<rparr>]\<rparr> =
     (Returned (),
      (snd (close init))
        \<lparr>warnings := [''Curlm alread closed! quitting from process_data'']\<rparr>)"
  using process_data_after_close [of "snd (close init)" "- 1" 0
      "\<lparr>running_handles = 0, completed = [\<lparr>msg = 1, easy_handle = 5, data_result = 0\<rparr>]\<rparr>"]
  by (simp add: close_def init_def)

section \<open>The socket callback\<close>



section \<open>The timer callback\<close>

lemma length_cancel_all: "length (cancel_all ts hs) = length hs"
  by (simp add: cancel_all_def)

lemma nth_cancel_all:
  "t < length hs \<Longrightarrow>
   cancel_all ts hs ! t = (if t \<in> ts then (hs ! t)\<lparr>th_cancelled := True\<rparr> else hs ! t)"
  by (simp add: cancel_all_def nth_enumerate_eq)

text \<open>
  C7. \<open>timer_function\<close> with \<open>timeout_ms = -1\<close> returns normally, cancels every timer
  that is in \<open>self._timers\<close> (and no other), leaves the set empty, and changes neither a
  future nor the registry.
\<close>

theorem timer_function_cancel_all:
  "fst (timer_function s (- 1)) = Returned () \<and>
   timers (snd (timer_function s (- 1))) = {} \<and>
   length (loop_timers (snd (timer_function s (- 1)))) = length (loop_timers s) \<and>
   (\<forall>t < length (loop_timers s).
      loop_timers (snd (timer_function s (- 1))) ! t =
        (if t \<in> timers s then (loop_timers s ! t)\<lparr>th_cancelled := True\<rparr>
         else loop_timers s ! t)) \<and>
   futures (snd (timer_function s (- 1))) = futures s \<and>
   curl2future (snd (timer_function s (- 1))) = curl2future s \<and>
   curl2curl (snd (timer_function s (- 1))) = curl2curl s"
  by (simp add: timer_function_def length_cancel_all nth_cancel_all)

theorem timer_function_cancel_all_witness:
  "timers (run [Add_handle transfer_a, Timer_function 500, Timer_function 20] init) = {0, 1} \<and>
   timers (snd (timer_function
       (run [Add_handle transfer_a, Timer_function 500, Timer_function 20] init) (- 1))) = {} \<and>
   map th_cancelled (loop_timers
       (run [Add_handle transfer_a, Timer_function 500, Timer_function 20] init)) = [False, False] \<and>
   map th_cancelled (loop_timers (snd (timer_function
       (run [Add_handle transfer_a, Timer_function 500, Timer_function 20] init) (- 1))))
     = [True, True] \<and>
   futures (snd (timer_function
       (run [Add_handle transfer_a, Timer_function 500, Timer_function 20] init) (- 1)))
     = [PENDING]"
  using timer_function_cancel_all
    [of "run [Add_handle transfer_a, Timer_function 500, Timer_function 20] init"]
  by (simp add: method_defs engine_defs init_def transfer_a_def curl_consts cancel_all_def
      insert_commute)

section \<open>Single assignment of the futures\<close>

lemma settled_kept_refl: "settled_kept s s"
  by (simp add: settled_kept_def)

lemma settled_kept_trans: "settled_kept s s' \<Longrightarrow> settled_kept s' s'' \<Longrightarrow> settled_kept s s''"
  by (auto simp: settled_kept_def)

lemma nth_update_settled:
  "futs ! g = PENDING \<Longrightarrow> futs ! f \<noteq> PENDING \<Longrightarrow> futs[g := v] ! f = futs ! f"
  by (cases "f = g") auto

lemma settled_kept_resolve: "settled_kept s (snd (resolve s c v))"
  by (auto simp: settled_kept_def resolve_def pop_future_def future_done_def nth_update_settled
      split: option.splits)

lemma settled_kept_add_handle: "settled_kept s (snd (add_handle s c))"
  by (auto simp: settled_kept_def add_handle_def Let_def nth_append split: option.splits)

lemma settled_kept_timer_function: "settled_kept s (snd (timer_function s timeout_ms))"
  by (simp add: settled_kept_def timer_function_def)

lemma settled_kept_socket_function: "settled_kept s (snd (socket_function s sockfd what))"
  by (simp add: settled_kept_def socket_function_def Let_def)

lemma settled_kept_close_futures: "settled_kept s (snd (close_futures items s))"
proof (induction items arbitrary: s)
  case Nil
  show ?case by (simp add: settled_kept_refl)
next
  case (Cons item items)
  obtain c future where item: "item = (c, future)" by (cases item)
  show ?case
  proof (cases "curlm s")
    case None
    then show ?thesis by (simp add: item settled_kept_refl)
  next
    case (Some e)
    define s2 where "s2 =
      (if \<not> future_done (futures s) future \<and> \<not> future_cancelled (futures s) future
       then s\<lparr>curlm := Some (curl_multi_remove_handle e (handle c)),
              futures := (futures s)[future := FINISHED_result]\<rparr>
       else s\<lparr>curlm := Some (curl_multi_remove_handle e (handle c))\<rparr>)"
    have step: "close_futures (item # items) s = close_futures items s2"
      by (simp add: item Some s2_def)
    have "settled_kept s s2"
      by (auto simp: s2_def settled_kept_def future_done_def nth_update_settled)
    then show ?thesis
      unfolding step using Cons.IH [of s2] by (rule settled_kept_trans)
  qed
qed

lemma settled_kept_close: "settled_kept s (snd (close s))"
proof -
  let ?s0 = "s\<lparr>checker_cancelled := True\<rparr>"
  have a: "settled_kept s ?s0" by (simp add: settled_kept_def)
  have b: "settled_kept ?s0 (snd (close_futures (curl2future ?s0) ?s0))"
    by (rule settled_kept_close_futures)
  have c: "settled_kept (snd (close_futures (curl2future ?s0) ?s0)) (snd (close s))"
    by (simp add: close_def settled_kept_def split: prod.splits outcome.splits option.splits)
  from a b c show ?thesis by (blast intro: settled_kept_trans)
qed

lemma settled_kept_info_read_loop: "settled_kept s (snd (info_read_loop s))"
proof (induction s rule: info_read_loop.induct)
  case (1 s)
  show ?case
  proof (cases "curlm s")
    case None
    then show ?thesis by (simp add: info_read_loop.simps [of s] settled_kept_refl)
  next
    case (Some e)
    note engine = this
    show ?thesis
    proof (cases "msgq e")
      case Nil
      with engine show ?thesis
        by (simp add: info_read_loop.simps [of s] curl_multi_info_read_def settled_kept_def)
    next
      case (Cons m rest)
      let ?e' = "e\<lparr>msgq := rest\<rparr>"
      let ?s1 = "s\<lparr>curlm := Some ?e'\<rparr>"
      have rd: "curl_multi_info_read e = (Some m, ?e')"
        by (simp add: curl_multi_info_read_def Cons)
      have s1: "settled_kept s ?s1" by (simp add: settled_kept_def)
      show ?thesis
      proof (cases "msg m = CURLMSG_DONE")
        case False
        let ?s2 = "s\<lparr>curlm := Some ?e', stdout := stdout s @ [''NOT DONE'']\<rparr>"
        have "info_read_loop s = info_read_loop ?s2"
          using engine rd False by (simp add: info_read_loop.simps [of s])
        moreover have "settled_kept ?s2 (snd (info_read_loop ?s2))"
          using "1.IH"(2) [OF engine rd [symmetric] refl False] .
        moreover have "settled_kept s ?s2" by (simp add: settled_kept_def)
        ultimately show ?thesis by (auto intro: settled_kept_trans)
      next
        case True
        show ?thesis
        proof (cases "map_of (curl2curl s) (easy_handle m)")
          case None
          then show ?thesis
            using engine rd True s1 by (simp add: info_read_loop.simps [of s])
        next
          case (Some c)
          note found = this
          define resolved where "resolved =
             (if data_result m = 0 then set_result ?s1 c
              else set_exception ?s1 c (get_error c (data_result m) ''perform''))"
          have r: "settled_kept ?s1 (snd resolved)"
            by (simp add: resolved_def set_result_def set_exception_def settled_kept_resolve)
          show ?thesis
          proof (cases "fst resolved")
            case (Raised x)
            then have "info_read_loop s = (Raised x, snd resolved)"
              using engine rd True found by (simp add: info_read_loop.simps [of s] resolved_def Let_def)
            then show ?thesis using s1 r by (auto intro: settled_kept_trans)
          next
            case (Returned u)
            then have "info_read_loop s = info_read_loop (snd resolved)"
              using engine rd True found by (simp add: info_read_loop.simps [of s] resolved_def Let_def)
            moreover have "settled_kept (snd resolved) (snd (info_read_loop (snd resolved)))"
              using "1.IH"(1) [OF engine rd [symmetric] refl True found refl resolved_def Returned] .
            ultimately show ?thesis using s1 r by (auto intro: settled_kept_trans)
          qed
        qed
      qed
    qed
  qed
qed

lemma settled_kept_process_data: "settled_kept s (snd (process_data s sockfd ev_bitmask r))"
proof (cases "curlm s")
  case None
  then show ?thesis by (simp add: process_data_def settled_kept_def)
next
  case (Some e)
  let ?s1 = "s\<lparr>curlm := Some (e\<lparr>msgq := msgq e @ completed r\<rparr>)\<rparr>"
  have "process_data s sockfd ev_bitmask r = info_read_loop ?s1"
    using Some by (simp add: process_data_def socket_action_def curl_multi_socket_action_def)
  moreover have "settled_kept s ?s1" by (simp add: settled_kept_def)
  ultimately show ?thesis
    using settled_kept_info_read_loop [of ?s1] by (auto intro: settled_kept_trans)
qed

lemma settled_kept_socket_action: "settled_kept s (snd (socket_action s sockfd ev_bitmask r))"
  by (simp add: settled_kept_def socket_action_def curl_multi_socket_action_def
      split: option.split)

lemma settled_kept_fire: "settled_kept s (fire ev s)"
  by (cases ev)
    (simp_all add: settled_kept_add_handle settled_kept_resolve remove_handle_def set_result_def
      set_exception_def settled_kept_close settled_kept_process_data settled_kept_timer_function
      settled_kept_socket_function settled_kept_socket_action)

lemma settled_kept_run: "settled_kept s (run evs s)"
proof (induction evs arbitrary: s)
  case Nil
  show ?case by (simp add: settled_kept_refl)
next
  case (Cons ev evs)
  from settled_kept_fire [of s ev] Cons.IH [of "fire ev s"]
  show ?case by (auto intro: settled_kept_trans)
qed

text \<open>
  C1. A future that is in a terminal state keeps that state through every further event
  on the adapter: \<open>set_result\<close>, \<open>set_exception\<close>, \<open>remove_handle\<close> and
  \<open>close\<close>, and also \<open>add_handle\<close>, \<open>process_data\<close>, \<open>socket_action\<close> and
  the two callbacks, in any number and order. So a future changes state at most once.
\<close>

theorem future_resolved_at_most_once:
  "f < length (futures s) \<Longrightarrow> futures s ! f \<noteq> PENDING \<Longrightarrow>
   f < length (futures (run evs s)) \<and> futures (run evs s) ! f = futures s ! f"
  using settled_kept_run [of s evs] by (auto simp: settled_kept_def)

theorem future_resolved_at_most_once_witness:
  "0 < length (futures (run [Add_handle transfer_a, Add_handle transfer_b, Set_result transfer_a] init)) \<and>
   futures (run [Add_handle transfer_a, Add_handle transfer_b, Set_result transfer_a] init) ! 0
     \<noteq> PENDING \<and>
   futures (run [Set_exception transfer_a (CurlError 28 ''perform''), Remove_handle transfer_a,
                 Add_handle transfer_a, Process_data 7 1 r_ab, Close]
              (run [Add_handle transfer_a, Add_handle transfer_b, Set_result transfer_a] init)) ! 0
     = FINISHED_result"
  using future_resolved_at_most_once
    [of 0 "run [Add_handle transfer_a, Add_handle transfer_b, Set_result transfer_a] init"
        "[Set_exception transfer_a (CurlError 28 ''perform''), Remove_handle transfer_a,
          Add_handle transfer_a, Process_data 7 1 r_ab, Close]"]
  by (simp add: example_defs)

section \<open>The drain loop\<close>








text \<open>
  C2. The claim is that a transfer-done message whose easy handle is not in the registry
  is passed over without an exception. The source indexes the dictionary
  (\<open>self._curl2curl[curl_msg.easy_handle]\<close>), so the lookup raises \<open>KeyError\<close>: a
  completion reported twice for one transfer makes \<open>process_data\<close> raise at the second
  message.
\<close>

theorem process_data_duplicate_done_raises:
  "fst (process_data (run [Add_handle transfer_a] init) 7 1
         \<lparr>running_handles = 0,
          completed = [\<lparr>msg = 1, easy_handle = 5, data_result = 0\<rparr>,
                       \<lparr>msg = 1, easy_handle = 5, data_result = 0\<rparr>]\<rparr>) = Raised (KeyError 5)"
  by (simp add: example_defs info_read_loop.simps)

text \<open>
  C2, as the code has it. When the drain loop of \<open>process_data\<close> reads a transfer-done
  message whose easy handle is not a key of \<open>self._curl2curl\<close>, it raises
  \<open>KeyError\<close> for that handle. The message has been taken from the queue, the messages
  behind it stay there, and nothing else has changed.
\<close>

theorem info_read_loop_unknown_handle_raises:
  "curlm s = Some e \<Longrightarrow> msgq e = m # rest \<Longrightarrow> msg m = CURLMSG_DONE \<Longrightarrow>
   map_of (curl2curl s) (easy_handle m) = None \<Longrightarrow>
   info_read_loop s = (Raised (KeyError (easy_handle m)), s\<lparr>curlm := Some (e\<lparr>msgq := rest\<rparr>)\<rparr>)"
  by (simp add: info_read_loop.simps [of s] curl_multi_info_read_def)

theorem info_read_loop_unknown_handle_raises_witness:
  "info_read_loop
     (snd (socket_action init 7 1
        \<lparr>running_handles = 0,
         completed = [\<lparr>msg = 1, easy_handle = 5, data_result = 0\<rparr>,
                      \<lparr>msg = 1, easy_handle = 6, data_result = 0\<rparr>]\<rparr>)) =
   (Raised (KeyError 5),
    init\<lparr>curlm := Some \<lparr>easies = {}, msgq = [\<lparr>msg = 1, easy_handle = 6, data_result = 0\<rparr>]\<rparr>\<rparr>)"
  using info_read_loop_unknown_handle_raises
    [of "snd (socket_action init 7 1
           \<lparr>running_handles = 0,
            completed = [\<lparr>msg = 1, easy_handle = 5, data_result = 0\<rparr>,
                         \<lparr>msg = 1, easy_handle = 6, data_result = 0\<rparr>]\<rparr>)"
        "\<lparr>easies = {}, msgq = [\<lparr>msg = 1, easy_handle = 5, data_result = 0\<rparr>,
                              \<lparr>msg = 1, easy_handle = 6, data_result = 0\<rparr>]\<rparr>"
        "\<lparr>msg = 1, easy_handle = 5, data_result = 0\<rparr>"
        "[\<lparr>msg = 1, easy_handle = 6, data_result = 0\<rparr>]"]
  by (simp add: init_def CURLMSG_DONE_def socket_action_def curl_multi_socket_action_def)

section \<open>Removing a transfer that is not registered\<close>




section \<open>Registering a transfer twice\<close>

text \<open>
  C9. The claim is that \<open>add_handle\<close> fails for a transfer that is already registered.
  \<open>add_handle\<close> has no such check: the second call returns a second future for the
  same transfer.
\<close>

theorem add_handle_twice_returns:
  "fst (add_handle (snd (add_handle init transfer_a)) transfer_a) = Returned 1 \<and>
   futures (snd (add_handle (snd (add_handle init transfer_a)) transfer_a)) = [PENDING, PENDING]"
  by (simp add: example_defs)

text \<open>
  C9, as the code has it. On an open adapter, \<open>add_handle\<close> for a transfer that is
  already registered returns a new pending future, different from the registered one,
  and makes it the transfer's entry in the registry. The future registered before keeps
  its state and is no longer reachable from the registry.
\<close>

theorem add_handle_registered_replaces:
  "curlm s = Some e \<Longrightarrow> map_of (curl2future s) c = Some f \<Longrightarrow> f < length (futures s) \<Longrightarrow>
   fst (add_handle s c) = Returned (length (futures s)) \<and>
   length (futures s) \<noteq> f \<and>
   futures (snd (add_handle s c)) = futures s @ [PENDING] \<and>
   futures (snd (add_handle s c)) ! f = futures s ! f \<and>
   map_of (curl2future (snd (add_handle s c))) c = Some (length (futures s)) \<and>
   map_of (curl2curl (snd (add_handle s c))) (handle c) = Some c"
  by (simp add: add_handle_def Let_def nth_append AList.update_conv)

theorem add_handle_registered_replaces_witness:
  "curlm (run [Add_handle transfer_a] init) = Some \<lparr>easies = {5}, msgq = []\<rparr> \<and>
   map_of (curl2future (run [Add_handle transfer_a] init)) transfer_a = Some 0 \<and>
   0 < length (futures (run [Add_handle transfer_a] init)) \<and>
   fst (add_handle (run [Add_handle transfer_a] init) transfer_a) = Returned 1 \<and>
   futures (snd (add_handle (run [Add_handle transfer_a] init) transfer_a)) ! 0 = PENDING \<and>
   map_of (curl2future (snd (add_handle (run [Add_handle transfer_a] init) transfer_a)))
     transfer_a = Some 1"
  using add_handle_registered_replaces
    [of "run [Add_handle transfer_a] init" "\<lparr>easies = {5}, msgq = []\<rparr>" transfer_a 0]
  by (simp add: method_defs engine_defs init_def transfer_a_def)

section \<open>Removing interest in a tracked descriptor\<close>




section \<open>Closing the adapter\<close>





end
